theory Spec2Isabelle
  imports Complex_Main
begin

section \<open>Mesh rasterizer front end: \<^verbatim>\<open>pytorch3d/renderer/mesh/rasterizer.py\<close>\<close>

text \<open>
  The module holds three classes: the output tuple \<^verbatim>\<open>Fragments\<close>, the dataclass
  \<^verbatim>\<open>RasterizationSettings\<close> and \<^verbatim>\<open>MeshRasterizer\<close> with \<^verbatim>\<open>__init__\<close>,
  \<^verbatim>\<open>transform\<close> and \<^verbatim>\<open>forward\<close>. Python floats are modelled as reals (the code only
  compares with 0, takes a minimum and halves; NaN and rounding are outside the model).
\<close>

subsection \<open>Data\<close>

type_synonym vec3 = "real \<times> real \<times> real"

text \<open>A padded vertex array of shape (N, V, 3) and a padded face array of shape (N, F, 3).\<close>

type_synonym verts_tensor = "vec3 list list"
type_synonym faces_tensor = "(int \<times> int \<times> int) list list"

text \<open>Arrays and mesh objects are mutable Python objects: they live in a store, under a reference.\<close>

type_synonym ref = nat

record Meshes =
  verts_padded_ref :: ref
  faces_padded_ref :: ref

datatype value_error_msg =
    CamerasMustBeSpecified
  | WrongNumberOfCameras nat nat

datatype error =
    ValueError value_error_msg
  | AttributeError
  | RuntimeError
  | RasterizeError string

text \<open>\<^verbatim>\<open>Union[int, Tuple[int, int]]\<close>\<close>

datatype image_size_t = Square int | HeightWidth int int

record RasterizationSettings =
  image_size :: image_size_t
  blur_radius :: real
  faces_per_pixel :: int
  bin_size :: "int option"
  max_faces_per_bin :: "int option"
  perspective_correct :: "bool option"
  clip_barycentric_coords :: "bool option"
  cull_backfaces :: bool
  z_clip_value :: "real option"
  cull_to_frustum :: bool

text \<open>
  What \<^verbatim>\<open>cameras.get_znear()\<close> returns: \<^verbatim>\<open>None\<close>, a number, or a tensor, given by the list
  of its entries (one per batch element; none for an empty batch).
\<close>

datatype znear_t = ZNone | ZFloat real | ZTensor "real list"

text \<open>
  The camera object is external to the module. The model takes what the module calls on it:
  \<^verbatim>\<open>len(cameras)\<close>, the three transform getters (which receive the call's keyword arguments:
  \<^verbatim>\<open>eps\<close> and the keys the module itself does not read), \<^verbatim>\<open>is_perspective()\<close> and
  \<^verbatim>\<open>get_znear()\<close>. \<open>'tr\<close> is the type of \<^verbatim>\<open>Transform3d\<close> objects.
\<close>

record ('tr, 'k) Cameras =
  len_cameras :: nat
  get_world_to_view_transform :: "real option \<Rightarrow> 'k \<Rightarrow> 'tr"
  get_ndc_camera_transform :: "real option \<Rightarrow> 'k \<Rightarrow> 'tr"
  get_projection_transform :: "real option \<Rightarrow> 'k \<Rightarrow> 'tr"
  is_perspective :: bool
  get_znear :: znear_t

text \<open>
  The keyword arguments of a call. \<^verbatim>\<open>kwargs.get("cameras", self.cameras)\<close> and
  \<^verbatim>\<open>kwargs.get("raster_settings", self.raster_settings)\<close> tell an absent key (\<open>None\<close>) from a
  key passed as \<^verbatim>\<open>None\<close> (\<open>Some None\<close>); \<^verbatim>\<open>kwargs.get("eps", None)\<close> does not tell them
  apart.
\<close>

record ('tr, 'k) kwargs =
  kw_cameras :: "('tr, 'k) Cameras option option"
  kw_raster_settings :: "RasterizationSettings option option"
  kw_eps :: "real option"
  kw_other :: 'k

record ('tr, 'k) MeshRasterizer =
  cameras :: "('tr, 'k) Cameras option"
  raster_settings :: RasterizationSettings

text \<open>The keyword arguments of one call of \<^verbatim>\<open>rasterize_meshes\<close>.\<close>

record rasterize_meshes_args =
  arg_meshes :: ref
  arg_image_size :: image_size_t
  arg_blur_radius :: real
  arg_faces_per_pixel :: int
  arg_bin_size :: "int option"
  arg_max_faces_per_bin :: "int option"
  arg_clip_barycentric_coords :: bool
  arg_perspective_correct :: bool
  arg_cull_backfaces :: bool
  arg_z_clip_value :: "real option"
  arg_cull_to_frustum :: bool

text \<open>
  The state a call works on: the store of arrays and mesh objects with its allocation pointer,
  the rasterizer object itself (\<^verbatim>\<open>self\<close>), and the log of calls made to
  \<^verbatim>\<open>rasterize_meshes\<close>.
\<close>

record ('tr, 'k) world =
  verts_mem :: "ref \<Rightarrow> verts_tensor"
  faces_mem :: "ref \<Rightarrow> faces_tensor"
  meshes_mem :: "ref \<Rightarrow> Meshes"
  next_ref :: ref
  rasterizer :: "('tr, 'k) MeshRasterizer"
  calls :: "rasterize_meshes_args list"

record 't Fragments =
  pix_to_face :: 't
  zbuf :: 't
  bary_coords :: 't
  dists :: 't
  back_faces :: 't

text \<open>
  The functions the module imports or calls on objects it is handed:
  \<^verbatim>\<open>Transform3d.compose\<close>, the action of a \<^verbatim>\<open>Transform3d\<close> on one point of batch element
  \<open>i\<close> under \<^verbatim>\<open>eps\<close>, and \<^verbatim>\<open>rasterize_meshes\<close>, which returns five tensors or raises.
\<close>

record ('tr, 'k, 't) externals =
  compose :: "'tr \<Rightarrow> 'tr \<Rightarrow> 'tr"
  point_map :: "'tr \<Rightarrow> real option \<Rightarrow> nat \<Rightarrow> vec3 \<Rightarrow> vec3"
  rasterize_meshes :: "('tr, 'k) world \<Rightarrow> rasterize_meshes_args \<Rightarrow> error + ('t \<times> 't \<times> 't \<times> 't \<times> 't)"

subsection \<open>The mesh container and the transform, as the module uses them\<close>

text \<open>
  Modelled from the spec: the mesh container is not in the module. The spec's words are "a set
  of independently-sized triangle meshes, each a list of vertex positions and a list of faces,
  grouped into a fixed-size batch": \<^verbatim>\<open>len(meshes)\<close> is the batch size of the padded vertex
  array, and \<^verbatim>\<open>verts_padded()\<close> hands out that array.
\<close>

definition len_meshes :: "('tr, 'k) world \<Rightarrow> ref \<Rightarrow> nat" where
  "len_meshes w m = length (verts_mem w (verts_padded_ref (meshes_mem w m)))"

definition verts_padded :: "('tr, 'k) world \<Rightarrow> ref \<Rightarrow> ref" where
  "verts_padded w m = verts_padded_ref (meshes_mem w m)"

definition map_batch :: "(nat \<Rightarrow> vec3 \<Rightarrow> vec3) \<Rightarrow> verts_tensor \<Rightarrow> verts_tensor" where
  "map_batch f xs = map (\<lambda>(i, ps). map (f i) ps) (enumerate 0 xs)"

text \<open>
  Modelled from the spec: \<^verbatim>\<open>Transform3d.transform_points\<close> is not in the module. The spec's
  words are "a new vertex array is produced": the result is a fresh array of the shape of the
  input, each point mapped by the transform of its batch element.
\<close>

definition transform_points ::
  "('tr, 'k, 't) externals \<Rightarrow> 'tr \<Rightarrow> ref \<Rightarrow> real option \<Rightarrow> ('tr, 'k) world \<Rightarrow> ref \<times> ('tr, 'k) world" where
  "transform_points ext t points eps w =
     (let out = map_batch (point_map ext t eps) (verts_mem w points)
      in (next_ref w,
          w\<lparr>verts_mem := (verts_mem w)(next_ref w := out), next_ref := Suc (next_ref w)\<rparr>))"

text \<open>
  Modelled from the spec: \<^verbatim>\<open>Meshes.update_padded\<close> is not in the module. The spec's words
  are "transforming a mesh yields a new mesh sharing face topology".
\<close>

definition update_padded ::
  "ref \<Rightarrow> ref \<Rightarrow> ('tr, 'k) world \<Rightarrow> ref \<times> ('tr, 'k) world" where
  "update_padded m new_verts_padded w =
     (next_ref w,
      w\<lparr>meshes_mem := (meshes_mem w)(next_ref w :=
            \<lparr>verts_padded_ref = new_verts_padded,
             faces_padded_ref = faces_padded_ref (meshes_mem w m)\<rparr>),
        next_ref := Suc (next_ref w)\<rparr>)"

text \<open>
  Line 157, \<^verbatim>\<open>verts_ndc[..., 2] = verts_view[..., 2]\<close>: an in-place write into the array under
  \<open>dst\<close>. Both arrays have the same shape wherever the module writes; on other shapes the
  assignment is modelled as raising (broadcasting a smaller right-hand side is not modelled).
\<close>

definition splice_z :: "vec3 \<Rightarrow> vec3 \<Rightarrow> vec3" where
  "splice_z p q = (fst p, fst (snd p), snd (snd q))"

definition setitem_z ::
  "ref \<Rightarrow> ref \<Rightarrow> ('tr, 'k) world \<Rightarrow> error + ('tr, 'k) world" where
  "setitem_z dst src w =
     (if map length (verts_mem w dst) = map length (verts_mem w src)
      then Inr (w\<lparr>verts_mem := (verts_mem w)(dst :=
                   map2 (map2 splice_z) (verts_mem w dst) (verts_mem w src))\<rparr>)
      else Inl RuntimeError)"

subsection \<open>The module\<close>

definition default_settings :: RasterizationSettings where
  "default_settings =
     \<lparr>image_size = Square 256, blur_radius = 0, faces_per_pixel = 1, bin_size = None,
      max_faces_per_bin = None, perspective_correct = None, clip_barycentric_coords = None,
      cull_backfaces = False, z_clip_value = None, cull_to_frustum = False\<rparr>"

text \<open>\<^verbatim>\<open>MeshRasterizer.__init__\<close>\<close>

definition init ::
  "('tr, 'k) Cameras option \<Rightarrow> RasterizationSettings option \<Rightarrow> ('tr, 'k) MeshRasterizer" where
  "init cams settings =
     \<lparr>cameras = cams,
      raster_settings = (case settings of None \<Rightarrow> default_settings | Some s \<Rightarrow> s)\<rparr>"

text \<open>\<^verbatim>\<open>kwargs.get("cameras", self.cameras)\<close>, lines 130 and 180.\<close>

definition get_cameras ::
  "('tr, 'k) kwargs \<Rightarrow> ('tr, 'k) world \<Rightarrow> ('tr, 'k) Cameras option" where
  "get_cameras kw w =
     (case kw_cameras kw of None \<Rightarrow> cameras (rasterizer w) | Some c \<Rightarrow> c)"

text \<open>\<^verbatim>\<open>kwargs.get("raster_settings", self.raster_settings)\<close>, line 170.\<close>

definition get_raster_settings ::
  "('tr, 'k) kwargs \<Rightarrow> ('tr, 'k) world \<Rightarrow> RasterizationSettings option" where
  "get_raster_settings kw w =
     (case kw_raster_settings kw of
        None \<Rightarrow> Some (raster_settings (rasterizer w))
      | Some s \<Rightarrow> s)"

text \<open>\<^verbatim>\<open>MeshRasterizer.transform\<close>, lines 117 to 159.\<close>

definition transform ::
  "('tr, 'k, 't) externals \<Rightarrow> ref \<Rightarrow> ('tr, 'k) kwargs \<Rightarrow> ('tr, 'k) world
     \<Rightarrow> (error + ref) \<times> ('tr, 'k) world" where
  "transform ext meshes_world kw w =
     (case get_cameras kw w of
        None \<Rightarrow> (Inl (ValueError CamerasMustBeSpecified), w)
      | Some cams \<Rightarrow>
          let n_cameras = len_cameras cams in
          if n_cameras \<noteq> 1 \<and> n_cameras \<noteq> len_meshes w meshes_world
          then (Inl (ValueError (WrongNumberOfCameras n_cameras (len_meshes w meshes_world))), w)
          else
            let verts_world = verts_padded w meshes_world;
                eps = kw_eps kw;
                (verts_view, w1) =
                  transform_points ext (get_world_to_view_transform cams (kw_eps kw) (kw_other kw))
                    verts_world eps w;
                to_ndc_transform = get_ndc_camera_transform cams (kw_eps kw) (kw_other kw);
                projection_transform =
                  compose ext (get_projection_transform cams (kw_eps kw) (kw_other kw))
                    to_ndc_transform;
                (verts_ndc, w2) = transform_points ext projection_transform verts_view eps w1
            in (case setitem_z verts_ndc verts_view w2 of
                  Inl e \<Rightarrow> (Inl e, w2)
                | Inr w3 \<Rightarrow>
                    let (meshes_ndc, w4) = update_padded meshes_world verts_ndc w3
                    in (Inr meshes_ndc, w4)))"

text \<open>Lines 181 to 184: the perspective flag, from the settings or from the camera.\<close>

definition resolve_perspective_correct ::
  "RasterizationSettings \<Rightarrow> ('tr, 'k) Cameras option \<Rightarrow> error + bool" where
  "resolve_perspective_correct rs cams =
     (case perspective_correct rs of
        Some b \<Rightarrow> Inr b
      | None \<Rightarrow> (case cams of None \<Rightarrow> Inl AttributeError | Some c \<Rightarrow> Inr (is_perspective c)))"

text \<open>
  Lines 189 and 190: a tensor is reduced to its minimum, anything else is kept.
  \<^verbatim>\<open>min()\<close> of a tensor without entries raises.
\<close>

definition znear_item :: "znear_t \<Rightarrow> error + real option" where
  "znear_item z =
     (case z of
        ZTensor [] \<Rightarrow> Inl RuntimeError
      | ZTensor (x # xs) \<Rightarrow> Inr (Some (fold min xs x))
      | ZFloat x \<Rightarrow> Inr (Some x)
      | ZNone \<Rightarrow> Inr None)"

text \<open>Lines 185 to 191: the clip depth, from the settings or from the camera.\<close>

definition resolve_z_clip ::
  "RasterizationSettings \<Rightarrow> ('tr, 'k) Cameras option \<Rightarrow> bool \<Rightarrow> error + real option" where
  "resolve_z_clip rs cams persp =
     (case z_clip_value rs of
        Some z \<Rightarrow> Inr (Some z)
      | None \<Rightarrow>
          (case cams of
             None \<Rightarrow> Inl AttributeError
           | Some c \<Rightarrow>
               (case znear_item (get_znear c) of
                  Inl e \<Rightarrow> Inl e
                | Inr znear \<Rightarrow>
                    Inr (if \<not> persp \<or> znear = None then None else Some (the znear / 2)))))"

text \<open>
  \<^verbatim>\<open>MeshRasterizer.forward\<close>, lines 161 to 209. When the settings looked up in line 170 are
  \<^verbatim>\<open>None\<close>, the attribute read of line 175 raises.
\<close>

definition forward ::
  "('tr, 'k, 't) externals \<Rightarrow> ref \<Rightarrow> ('tr, 'k) kwargs \<Rightarrow> ('tr, 'k) world
     \<Rightarrow> (error + 't Fragments) \<times> ('tr, 'k) world" where
  "forward ext meshes_world kw w =
     (case transform ext meshes_world kw w of
        (Inl e, w1) \<Rightarrow> (Inl e, w1)
      | (Inr meshes_proj, w1) \<Rightarrow>
          (case get_raster_settings kw w1 of
             None \<Rightarrow> (Inl AttributeError, w1)
           | Some rs \<Rightarrow>
               let clip_bary = (case clip_barycentric_coords rs of
                                  None \<Rightarrow> blur_radius rs > 0
                                | Some b \<Rightarrow> b);
                   cams = get_cameras kw w1
               in (case resolve_perspective_correct rs cams of
                     Inl e \<Rightarrow> (Inl e, w1)
                   | Inr persp \<Rightarrow>
                       (case resolve_z_clip rs cams persp of
                          Inl e \<Rightarrow> (Inl e, w1)
                        | Inr z_clip \<Rightarrow>
                            let args =
                                  \<lparr>arg_meshes = meshes_proj,
                                   arg_image_size = image_size rs,
                                   arg_blur_radius = blur_radius rs,
                                   arg_faces_per_pixel = faces_per_pixel rs,
                                   arg_bin_size = bin_size rs,
                                   arg_max_faces_per_bin = max_faces_per_bin rs,
                                   arg_clip_barycentric_coords = clip_bary,
                                   arg_perspective_correct = persp,
                                   arg_cull_backfaces = cull_backfaces rs,
                                   arg_z_clip_value = z_clip,
                                   arg_cull_to_frustum = cull_to_frustum rs\<rparr>;
                                w2 = w1\<lparr>calls := calls w1 @ [args]\<rparr>
                            in (case rasterize_meshes ext w2 args of
                                  Inl e \<Rightarrow> (Inl e, w2)
                                | Inr (p, z, b, d, k) \<Rightarrow>
                                    (Inr \<lparr>pix_to_face = p, zbuf = z, bary_coords = b,
                                          dists = d, back_faces = k\<rparr>, w2))))))"

subsection \<open>A concrete scene\<close>

text \<open>
  One mesh with one vertex, a perspective camera whose transforms are plain functions, and a
  rasterizer stub that echoes the mesh it is handed. The second camera bundle claims two
  cameras for the one mesh; the third has a tensor of near-plane distances without entries.
\<close>

definition ex_cameras :: "(vec3 \<Rightarrow> vec3, unit) Cameras" where
  "ex_cameras =
     \<lparr>len_cameras = 1,
      get_world_to_view_transform = (\<lambda>eps k (x, y, z). (x, y, z + 1)),
      get_ndc_camera_transform = (\<lambda>eps k (x, y, z). (- x, - y, z)),
      get_projection_transform = (\<lambda>eps k (x, y, z). (x / z, y / z, 1 / z)),
      is_perspective = True,
      get_znear = ZTensor [1, 1 / 2, 2]\<rparr>"

definition ex_ext :: "(vec3 \<Rightarrow> vec3, unit, nat) externals" where
  "ex_ext =
     \<lparr>compose = (\<lambda>f g. g \<circ> f),
      point_map = (\<lambda>t eps i p. t p),
      rasterize_meshes = (\<lambda>w a. Inr (arg_meshes a, 1, 2, 3, 4))\<rparr>"

definition ex_world :: "(vec3 \<Rightarrow> vec3, unit) world" where
  "ex_world =
     \<lparr>verts_mem = (\<lambda>_. [])(0 := [[(1, 2, 3)]]),
      faces_mem = (\<lambda>_. [])(1 := [[(0, 0, 0)]]),
      meshes_mem = (\<lambda>_. \<lparr>verts_padded_ref = 0, faces_padded_ref = 0\<rparr>)
                     (2 := \<lparr>verts_padded_ref = 0, faces_padded_ref = 1\<rparr>),
      next_ref = 3,
      rasterizer = init (Some ex_cameras) None,
      calls = []\<rparr>"

definition ex_kwargs :: "(vec3 \<Rightarrow> vec3, unit) kwargs" where
  "ex_kwargs = \<lparr>kw_cameras = None, kw_raster_settings = None, kw_eps = None, kw_other = ()\<rparr>"

definition ex_cameras2 :: "(vec3 \<Rightarrow> vec3, unit) Cameras" where
  "ex_cameras2 = ex_cameras\<lparr>len_cameras := 2\<rparr>"

definition ex_kwargs2 :: "(vec3 \<Rightarrow> vec3, unit) kwargs" where
  "ex_kwargs2 = ex_kwargs\<lparr>kw_cameras := Some (Some ex_cameras2)\<rparr>"

definition ex_args :: rasterize_meshes_args where
  "ex_args =
     \<lparr>arg_meshes = 5, arg_image_size = Square 256, arg_blur_radius = 0, arg_faces_per_pixel = 1,
      arg_bin_size = None, arg_max_faces_per_bin = None, arg_clip_barycentric_coords = False,
      arg_perspective_correct = True, arg_cull_backfaces = False,
      arg_z_clip_value = Some (1 / 4), arg_cull_to_frustum = False\<rparr>"

definition ex_world_no_cameras :: "(vec3 \<Rightarrow> vec3, unit) world" where
  "ex_world_no_cameras = ex_world\<lparr>rasterizer := init None None\<rparr>"

definition ex_settings_explicit :: RasterizationSettings where
  "ex_settings_explicit =
     default_settings\<lparr>perspective_correct := Some False, clip_barycentric_coords := Some True,
       z_clip_value := Some (1 / 100)\<rparr>"

definition ex_kwargs_explicit :: "(vec3 \<Rightarrow> vec3, unit) kwargs" where
  "ex_kwargs_explicit = ex_kwargs\<lparr>kw_raster_settings := Some (Some ex_settings_explicit)\<rparr>"

definition ex_kwargs_mismatch :: "(vec3 \<Rightarrow> vec3, unit) kwargs" where
  "ex_kwargs_mismatch = ex_kwargs_explicit\<lparr>kw_cameras := Some (Some ex_cameras2)\<rparr>"

definition ex_kwargs_none :: "(vec3 \<Rightarrow> vec3, unit) kwargs" where
  "ex_kwargs_none = ex_kwargs_explicit\<lparr>kw_cameras := Some None\<rparr>"

definition ex_kwargs_settings_none :: "(vec3 \<Rightarrow> vec3, unit) kwargs" where
  "ex_kwargs_settings_none = ex_kwargs\<lparr>kw_raster_settings := Some None\<rparr>"

definition ex_cameras_empty_znear :: "(vec3 \<Rightarrow> vec3, unit) Cameras" where
  "ex_cameras_empty_znear = ex_cameras\<lparr>get_znear := ZTensor []\<rparr>"

definition ex_kwargs_empty_znear :: "(vec3 \<Rightarrow> vec3, unit) kwargs" where
  "ex_kwargs_empty_znear = ex_kwargs\<lparr>kw_cameras := Some (Some ex_cameras_empty_znear)\<rparr>"

section \<open>Supporting lemmas\<close>


lemma shape_map_batch: "map length (map_batch f xs) = map length xs"
proof -
  have "map length (map_batch f xs) = map (length \<circ> snd) (enumerate 0 xs)"
    by (simp add: map_batch_def case_prod_unfold comp_def)
  also have "\<dots> = map length (map snd (enumerate 0 xs))"
    by (simp only: map_map)
  also have "\<dots> = map length xs"
    by (simp only: map_snd_enumerate)
  finally show ?thesis .
qed


lemma transform_ok:
  assumes c: "get_cameras kw w = Some cams"
    and n: "len_cameras cams = 1 \<or> len_cameras cams = len_meshes w m"
  shows "transform ext m kw w =
     (let V = verts_mem w (verts_padded_ref (meshes_mem w m));
          view = map_batch (point_map ext (get_world_to_view_transform cams (kw_eps kw) (kw_other kw)) (kw_eps kw)) V;
          ndc = map_batch (point_map ext (compose ext (get_projection_transform cams (kw_eps kw) (kw_other kw))
                     (get_ndc_camera_transform cams (kw_eps kw) (kw_other kw))) (kw_eps kw)) view
      in (Inr (Suc (Suc (next_ref w))),
          w\<lparr>verts_mem := (verts_mem w)(next_ref w := view, Suc (next_ref w) := map2 (map2 splice_z) ndc view),
            meshes_mem := (meshes_mem w)(Suc (Suc (next_ref w)) :=
               \<lparr>verts_padded_ref = Suc (next_ref w), faces_padded_ref = faces_padded_ref (meshes_mem w m)\<rparr>),
            next_ref := Suc (Suc (Suc (next_ref w)))\<rparr>))"
  using c n
  by (auto simp add: transform_def transform_points_def setitem_z_def update_padded_def verts_padded_def
      Let_def shape_map_batch)

lemma transform_no_cameras:
  "get_cameras kw w = None \<Longrightarrow> transform ext m kw w = (Inl (ValueError CamerasMustBeSpecified), w)"
  by (simp add: transform_def)

lemma transform_wrong_number:
  "get_cameras kw w = Some cams \<Longrightarrow> len_cameras cams \<noteq> 1 \<Longrightarrow> len_cameras cams \<noteq> len_meshes w m \<Longrightarrow>
   transform ext m kw w = (Inl (ValueError (WrongNumberOfCameras (len_cameras cams) (len_meshes w m))), w)"
  by (simp add: transform_def)

lemma transform_Inr_cameras:
  assumes "transform ext m kw w = (Inr mp, w1)"
  shows "\<exists>cams. get_cameras kw w = Some cams \<and> (len_cameras cams = 1 \<or> len_cameras cams = len_meshes w m)"
proof (cases "get_cameras kw w")
  case None
  with assms show ?thesis by (simp add: transform_no_cameras)
next
  case (Some cams)
  with assms show ?thesis
    by (cases "len_cameras cams \<noteq> 1 \<and> len_cameras cams \<noteq> len_meshes w m")
       (auto simp add: transform_wrong_number)
qed

lemma transform_frame:
  assumes "transform ext m kw w = (r, w')"
  shows "rasterizer w' = rasterizer w \<and> calls w' = calls w \<and> faces_mem w' = faces_mem w
     \<and> (\<forall>a < next_ref w. verts_mem w' a = verts_mem w a \<and> meshes_mem w' a = meshes_mem w a)"
proof (cases "get_cameras kw w")
  case None
  with assms show ?thesis by (simp add: transform_no_cameras)
next
  case (Some cams)
  show ?thesis
  proof (cases "len_cameras cams \<noteq> 1 \<and> len_cameras cams \<noteq> len_meshes w m")
    case True
    with Some assms show ?thesis by (simp add: transform_wrong_number)
  next
    case False
    then have "len_cameras cams = 1 \<or> len_cameras cams = len_meshes w m" by blast
    from transform_ok [OF Some this, of ext] assms show ?thesis
      by (auto simp add: Let_def)
  qed
qed

lemma get_cameras_frame: "rasterizer w' = rasterizer w \<Longrightarrow> get_cameras kw w' = get_cameras kw w"
  by (simp add: get_cameras_def split: option.splits)

lemma forward_transform_error:
  "transform ext m kw w = (Inl e, w1) \<Longrightarrow> forward ext m kw w = (Inl e, w1)"
  by (simp add: forward_def)

lemma resolve_perspective_correct_Some:
  "resolve_perspective_correct rs (Some c) =
     Inr (case perspective_correct rs of None \<Rightarrow> is_perspective c | Some b \<Rightarrow> b)"
  by (simp add: resolve_perspective_correct_def split: option.splits)



lemma transform_Inr_result:
  assumes t: "transform ext m kw w = (Inr m', w')"
    and c: "get_cameras kw w = Some cams"
  shows "m' = Suc (Suc (next_ref w))
     \<and> next_ref w' = Suc (Suc (Suc (next_ref w)))
     \<and> meshes_mem w' = (meshes_mem w)(Suc (Suc (next_ref w)) :=
               \<lparr>verts_padded_ref = Suc (next_ref w), faces_padded_ref = faces_padded_ref (meshes_mem w m)\<rparr>)
     \<and> verts_mem w' (Suc (next_ref w)) =
         map2 (map2 splice_z)
           (map_batch (point_map ext (compose ext (get_projection_transform cams (kw_eps kw) (kw_other kw))
                     (get_ndc_camera_transform cams (kw_eps kw) (kw_other kw))) (kw_eps kw))
              (map_batch (point_map ext (get_world_to_view_transform cams (kw_eps kw) (kw_other kw)) (kw_eps kw))
                 (verts_mem w (verts_padded_ref (meshes_mem w m)))))
           (map_batch (point_map ext (get_world_to_view_transform cams (kw_eps kw) (kw_other kw)) (kw_eps kw))
                 (verts_mem w (verts_padded_ref (meshes_mem w m))))"
proof -
  from transform_Inr_cameras [OF t] c
  have n: "len_cameras cams = 1 \<or> len_cameras cams = len_meshes w m" by simp
  from transform_ok [OF c n, of ext] t show ?thesis
    by (auto simp add: Let_def)
qed

lemma ex_get_cameras: "get_cameras ex_kwargs ex_world = Some ex_cameras"
  by (simp add: get_cameras_def ex_kwargs_def ex_world_def init_def)

lemma ex_len_meshes: "len_meshes ex_world 2 = 1"
  by (simp add: len_meshes_def ex_world_def)

lemma ex_transform:
  "transform ex_ext 2 ex_kwargs ex_world =
     (Inr 5,
      ex_world\<lparr>verts_mem := (verts_mem ex_world)(3 := [[(1, 2, 4)]], 4 := [[(- (1 / 4), - (1 / 2), 4)]]),
               meshes_mem := (meshes_mem ex_world)(5 := \<lparr>verts_padded_ref = 4, faces_padded_ref = 1\<rparr>),
               next_ref := 6\<rparr>)"
proof -
  have n: "len_cameras ex_cameras = 1 \<or> len_cameras ex_cameras = len_meshes ex_world 2"
    by (simp add: ex_cameras_def)
  show ?thesis
    unfolding transform_ok [OF ex_get_cameras n]
    by (simp add: Let_def map_batch_def splice_z_def ex_world_def ex_cameras_def ex_ext_def
        ex_kwargs_def eval_nat_numeral)
qed

lemma ex_transform_fst: "fst (transform ex_ext 2 ex_kwargs ex_world) = Inr 5"
  by (simp add: ex_transform)

lemma transform_fst_Inl_iff:
  assumes c: "get_cameras kw w = Some cams"
  shows "(\<exists>e. fst (transform ext m kw w) = Inl e)
     \<longleftrightarrow> (len_cameras cams \<noteq> 1 \<and> len_cameras cams \<noteq> len_meshes w m)"
proof (cases "len_cameras cams \<noteq> 1 \<and> len_cameras cams \<noteq> len_meshes w m")
  case True
  then show ?thesis using c by (simp add: transform_wrong_number)
next
  case False
  then have n: "len_cameras cams = 1 \<or> len_cameras cams = len_meshes w m" by blast
  show ?thesis using False by (simp add: transform_ok [OF c n] Let_def)
qed

lemma ex_get_cameras2: "get_cameras ex_kwargs2 ex_world = Some ex_cameras2"
  by (simp add: get_cameras_def ex_kwargs2_def)

lemma get_cameras_None:
  "cameras (rasterizer w) = None \<Longrightarrow> kw_cameras kw = None \<or> kw_cameras kw = Some None \<Longrightarrow>
   get_cameras kw w = None"
  by (auto simp add: get_cameras_def)

lemma fold_min_Min: "fold min xs (x::real) = Min (set (x # xs))"
  by (simp only: Min.set_eq_fold)

lemma znear_item_empty: "znear_item (ZTensor []) = Inl RuntimeError"
  by (simp add: znear_item_def)

lemma znear_item_Inr:
  assumes "z \<noteq> ZTensor []"
  shows "znear_item z =
     Inr (case z of ZNone \<Rightarrow> None | ZFloat x \<Rightarrow> Some x | ZTensor xs \<Rightarrow> Some (Min (set xs)))"
proof (cases z)
  case ZNone
  then show ?thesis by (simp add: znear_item_def)
next
  case (ZFloat x)
  then show ?thesis by (simp add: znear_item_def)
next
  case (ZTensor xs)
  with assms obtain y ys where "xs = y # ys" by (cases xs) auto
  with ZTensor show ?thesis by (simp add: znear_item_def fold_min_Min del: set_simps)
qed

lemma get_raster_settings_frame:
  "rasterizer w' = rasterizer w \<Longrightarrow> get_raster_settings kw w' = get_raster_settings kw w"
  by (simp add: get_raster_settings_def split: option.splits)

lemma resolve_z_clip_set:
  "z_clip_value rs = Some z \<Longrightarrow> resolve_z_clip rs cams persp = Inr (Some z)"
  by (simp add: resolve_z_clip_def)

lemma resolve_z_clip_empty:
  "z_clip_value rs = None \<Longrightarrow> get_znear c = ZTensor [] \<Longrightarrow>
   resolve_z_clip rs (Some c) persp = Inl RuntimeError"
  by (simp add: resolve_z_clip_def znear_item_empty)

lemma resolve_z_clip_Some:
  assumes "z_clip_value rs = None \<longrightarrow> get_znear c \<noteq> ZTensor []"
  shows "resolve_z_clip rs (Some c) persp =
     Inr (case z_clip_value rs of
            Some z \<Rightarrow> Some z
          | None \<Rightarrow>
              if persp
              then (case get_znear c of
                      ZNone \<Rightarrow> None
                    | ZFloat x \<Rightarrow> Some (x / 2)
                    | ZTensor xs \<Rightarrow> Some (Min (set xs) / 2))
              else None)"
proof (cases "z_clip_value rs")
  case (Some z)
  then show ?thesis by (simp add: resolve_z_clip_set)
next
  case None
  with assms have "get_znear c \<noteq> ZTensor []" by simp
  then have "znear_item (get_znear c) =
      Inr (case get_znear c of
             ZNone \<Rightarrow> None | ZFloat x \<Rightarrow> Some x | ZTensor xs \<Rightarrow> Some (Min (set xs)))"
    by (rule znear_item_Inr)
  with None show ?thesis
    by (simp add: resolve_z_clip_def split: znear_t.splits)
qed

lemma forward_settings_none:
  assumes t: "transform ext m kw w = (Inr mp, w1)"
    and s: "get_raster_settings kw w = None"
  shows "forward ext m kw w = (Inl AttributeError, w1)"
proof -
  from transform_frame [OF t] have "rasterizer w1 = rasterizer w" by simp
  then have "get_raster_settings kw w1 = get_raster_settings kw w"
    by (rule get_raster_settings_frame)
  with s show ?thesis by (simp add: forward_def t)
qed

lemma forward_znear_empty:
  assumes t: "transform ext m kw w = (Inr mp, w1)"
    and c: "get_cameras kw w = Some cams"
    and s: "get_raster_settings kw w = Some rs"
    and z: "z_clip_value rs = None"
    and e: "get_znear cams = ZTensor []"
  shows "forward ext m kw w = (Inl RuntimeError, w1)"
proof -
  from transform_frame [OF t] have f: "rasterizer w1 = rasterizer w" by simp
  have gc: "get_cameras kw w1 = Some cams"
    using c get_cameras_frame [OF f, of kw] by simp
  have gr: "get_raster_settings kw w1 = Some rs"
    using s get_raster_settings_frame [OF f, of kw] by simp
  show ?thesis
    by (simp add: forward_def t gc gr Let_def resolve_perspective_correct_Some
        resolve_z_clip_empty [OF z e])
qed

lemma forward_after_transform:
  assumes t: "transform ext m kw w = (Inr mp, w1)"
    and c: "get_cameras kw w = Some cams"
    and s: "get_raster_settings kw w = Some rs"
    and z: "z_clip_value rs = None \<longrightarrow> get_znear cams \<noteq> ZTensor []"
  shows "forward ext m kw w =
    (let persp = (case perspective_correct rs of None \<Rightarrow> is_perspective cams | Some b \<Rightarrow> b);
         args = \<lparr>arg_meshes = mp,
                 arg_image_size = image_size rs,
                 arg_blur_radius = blur_radius rs,
                 arg_faces_per_pixel = faces_per_pixel rs,
                 arg_bin_size = bin_size rs,
                 arg_max_faces_per_bin = max_faces_per_bin rs,
                 arg_clip_barycentric_coords =
                   (case clip_barycentric_coords rs of None \<Rightarrow> blur_radius rs > 0 | Some b \<Rightarrow> b),
                 arg_perspective_correct = persp,
                 arg_cull_backfaces = cull_backfaces rs,
                 arg_z_clip_value =
                   (case z_clip_value rs of
                      Some z \<Rightarrow> Some z
                    | None \<Rightarrow>
                        if persp
                        then (case get_znear cams of
                                ZNone \<Rightarrow> None
                              | ZFloat x \<Rightarrow> Some (x / 2)
                              | ZTensor xs \<Rightarrow> Some (Min (set xs) / 2))
                        else None),
                 arg_cull_to_frustum = cull_to_frustum rs\<rparr>;
         w2 = w1\<lparr>calls := calls w @ [args]\<rparr>
     in (case rasterize_meshes ext w2 args of
           Inl e \<Rightarrow> (Inl e, w2)
         | Inr (p, z, b, d, k) \<Rightarrow>
             (Inr \<lparr>pix_to_face = p, zbuf = z, bary_coords = b, dists = d, back_faces = k\<rparr>, w2)))"
proof -
  from transform_frame [OF t] have f: "rasterizer w1 = rasterizer w" "calls w1 = calls w"
    by simp_all
  have gc: "get_cameras kw w1 = Some cams"
    using c get_cameras_frame [OF f(1), of kw] by simp
  have gr: "get_raster_settings kw w1 = Some rs"
    using s get_raster_settings_frame [OF f(1), of kw] by simp
  show ?thesis
    unfolding forward_def t prod.case sum.case gc gr option.case f(2) Let_def
      resolve_perspective_correct_Some resolve_z_clip_Some [OF z]
    by (rule refl)
qed

lemma forward_result:
  assumes t: "fst (transform ext m kw w) = Inr mp"
    and c: "get_cameras kw w = Some cams"
    and s: "get_raster_settings kw w = Some rs"
    and z: "z_clip_value rs = None \<longrightarrow> get_znear cams \<noteq> ZTensor []"
  shows "(let persp = (case perspective_correct rs of None \<Rightarrow> is_perspective cams | Some b \<Rightarrow> b);
              args = \<lparr>arg_meshes = mp,
                      arg_image_size = image_size rs,
                      arg_blur_radius = blur_radius rs,
                      arg_faces_per_pixel = faces_per_pixel rs,
                      arg_bin_size = bin_size rs,
                      arg_max_faces_per_bin = max_faces_per_bin rs,
                      arg_clip_barycentric_coords =
                        (case clip_barycentric_coords rs of
                           None \<Rightarrow> blur_radius rs > 0
                         | Some b \<Rightarrow> b),
                      arg_perspective_correct = persp,
                      arg_cull_backfaces = cull_backfaces rs,
                      arg_z_clip_value =
                        (case z_clip_value rs of
                           Some z \<Rightarrow> Some z
                         | None \<Rightarrow>
                             if persp
                             then (case get_znear cams of
                                     ZNone \<Rightarrow> None
                                   | ZFloat x \<Rightarrow> Some (x / 2)
                                   | ZTensor xs \<Rightarrow> Some (Min (set xs) / 2))
                             else None),
                      arg_cull_to_frustum = cull_to_frustum rs\<rparr>
          in calls (snd (forward ext m kw w)) = calls w @ [args]
           \<and> fst (forward ext m kw w) =
               (case rasterize_meshes ext (snd (forward ext m kw w)) args of
                  Inl e \<Rightarrow> Inl e
                | Inr (p, z, b, d, k) \<Rightarrow>
                    Inr \<lparr>pix_to_face = p, zbuf = z, bary_coords = b, dists = d,
                         back_faces = k\<rparr>))"
proof -
  from t have t': "transform ext m kw w = (Inr mp, snd (transform ext m kw w))"
    by (simp add: prod_eq_iff)
  define persp where
    "persp = (case perspective_correct rs of None \<Rightarrow> is_perspective cams | Some b \<Rightarrow> b)"
  define args where
    "args = \<lparr>arg_meshes = mp,
              arg_image_size = image_size rs,
              arg_blur_radius = blur_radius rs,
              arg_faces_per_pixel = faces_per_pixel rs,
              arg_bin_size = bin_size rs,
              arg_max_faces_per_bin = max_faces_per_bin rs,
              arg_clip_barycentric_coords =
                (case clip_barycentric_coords rs of
                   None \<Rightarrow> blur_radius rs > 0
                 | Some b \<Rightarrow> b),
              arg_perspective_correct = persp,
              arg_cull_backfaces = cull_backfaces rs,
              arg_z_clip_value =
                (case z_clip_value rs of
                   Some z \<Rightarrow> Some z
                 | None \<Rightarrow>
                     if persp
                     then (case get_znear cams of
                             ZNone \<Rightarrow> None
                           | ZFloat x \<Rightarrow> Some (x / 2)
                           | ZTensor xs \<Rightarrow> Some (Min (set xs) / 2))
                     else None),
              arg_cull_to_frustum = cull_to_frustum rs\<rparr>"
  define w2 where "w2 = (snd (transform ext m kw w))\<lparr>calls := calls w @ [args]\<rparr>"
  have f: "forward ext m kw w =
      (case rasterize_meshes ext w2 args of
         Inl e \<Rightarrow> (Inl e, w2)
       | Inr (p, z, b, d, k) \<Rightarrow>
           (Inr \<lparr>pix_to_face = p, zbuf = z, bary_coords = b, dists = d, back_faces = k\<rparr>, w2))"
    using forward_after_transform [OF t' c s z]
    unfolding Let_def w2_def args_def persp_def .
  have sn: "snd (forward ext m kw w) = w2"
    unfolding f by (simp split: sum.splits prod.splits)
  have r: "fst (forward ext m kw w) =
      (case rasterize_meshes ext w2 args of
         Inl e \<Rightarrow> Inl e
       | Inr (p, z, b, d, k) \<Rightarrow>
           Inr \<lparr>pix_to_face = p, zbuf = z, bary_coords = b, dists = d, back_faces = k\<rparr>)"
    unfolding f by (simp split: sum.splits prod.splits)
  have cs: "calls w2 = calls w @ [args]" by (simp add: w2_def)
  have "calls (snd (forward ext m kw w)) = calls w @ [args]
      \<and> fst (forward ext m kw w) =
          (case rasterize_meshes ext (snd (forward ext m kw w)) args of
             Inl e \<Rightarrow> Inl e
           | Inr (p, z, b, d, k) \<Rightarrow>
               Inr \<lparr>pix_to_face = p, zbuf = z, bary_coords = b, dists = d, back_faces = k\<rparr>)"
    unfolding sn using cs r by (rule conjI)
  then show ?thesis
    unfolding Let_def args_def persp_def .
qed

lemma forward_frame:
  "rasterizer (snd (forward ext m kw w)) = rasterizer w
   \<and> (calls (snd (forward ext m kw w)) = calls w
        \<or> (\<exists>a. calls (snd (forward ext m kw w)) = calls w @ [a]))"
proof (cases "transform ext m kw w")
  case (Pair r w1)
  from transform_frame [OF Pair] have f: "rasterizer w1 = rasterizer w" "calls w1 = calls w"
    by simp_all
  show ?thesis
  proof (cases r)
    case (Inl e)
    with Pair have "forward ext m kw w = (Inl e, w1)" by (simp add: forward_transform_error)
    with f show ?thesis by simp
  next
    case (Inr mp)
    with Pair have t: "transform ext m kw w = (Inr mp, w1)" by simp
    from transform_Inr_cameras [OF t] obtain cams where c: "get_cameras kw w = Some cams"
      by blast
    show ?thesis
    proof (cases "get_raster_settings kw w")
      case None
      from forward_settings_none [OF t None] f show ?thesis by simp
    next
      case (Some rs)
      show ?thesis
      proof (cases "z_clip_value rs = None \<and> get_znear cams = ZTensor []")
        case True
        then have "forward ext m kw w = (Inl RuntimeError, w1)"
          using forward_znear_empty [OF t c Some] by blast
        with f show ?thesis by simp
      next
        case False
        then have z: "z_clip_value rs = None \<longrightarrow> get_znear cams \<noteq> ZTensor []" by blast
        have "rasterizer (snd (forward ext m kw w)) = rasterizer w"
          unfolding forward_after_transform [OF t c Some z] Let_def
          using f by (simp split: sum.splits prod.splits)
        moreover from t have "fst (transform ext m kw w) = Inr mp" by simp
        from forward_result [OF this c Some z]
        have "\<exists>a. calls (snd (forward ext m kw w)) = calls w @ [a]"
          unfolding Let_def by blast
        ultimately show ?thesis by blast
      qed
    qed
  qed
qed

lemma ex_raster_settings: "get_raster_settings ex_kwargs ex_world = Some default_settings"
  by (simp add: get_raster_settings_def ex_kwargs_def ex_world_def init_def)

lemma ex_znear_ok:
  "z_clip_value default_settings = None \<longrightarrow> get_znear ex_cameras \<noteq> ZTensor []"
  by (simp add: ex_cameras_def)

lemma ex_forward_calls:
  "calls (snd (forward ex_ext 2 ex_kwargs ex_world)) = calls ex_world @ [ex_args]"
  unfolding forward_after_transform [OF ex_transform ex_get_cameras ex_raster_settings ex_znear_ok]
    Let_def
  by (simp add: ex_ext_def default_settings_def ex_cameras_def ex_world_def ex_args_def)

lemma transform_ok_fst:
  assumes "get_cameras kw w = Some cams"
    and "len_cameras cams = 1 \<or> len_cameras cams = len_meshes w m"
  shows "fst (transform ext m kw w) = Inr (Suc (Suc (next_ref w)))"
  by (simp add: transform_ok [OF assms] Let_def)

lemma get_raster_settings_None_iff:
  "get_raster_settings kw w = None \<longleftrightarrow> kw_raster_settings kw = Some None"
  by (simp add: get_raster_settings_def split: option.splits)

lemma forward_failure_after_transform:
  assumes t: "fst (transform ext m kw w) = Inr mp"
    and c: "get_cameras kw w = Some cams"
    and s: "get_raster_settings kw w = Some rs"
    and z: "z_clip_value rs = None \<longrightarrow> get_znear cams \<noteq> ZTensor []"
  shows "\<exists>a. calls (snd (forward ext m kw w)) = calls w @ [a]
           \<and> (\<forall>e. fst (forward ext m kw w) = Inl e \<longrightarrow>
                 rasterize_meshes ext (snd (forward ext m kw w)) a = Inl e)"
  using forward_result [OF t c s z] unfolding Let_def
  by (auto split: sum.splits prod.splits)

lemma ex_next_ref: "Suc (Suc (next_ref ex_world)) = 5"
  by (simp add: ex_world_def)

lemma ex_get_cameras_settings_none:
  "get_cameras ex_kwargs_settings_none ex_world = Some ex_cameras"
  by (simp add: get_cameras_def ex_kwargs_settings_none_def ex_kwargs_def ex_world_def init_def)

lemma ex_transform_settings_none:
  "fst (transform ex_ext 2 ex_kwargs_settings_none ex_world) = Inr 5"
proof -
  have "len_cameras ex_cameras = 1 \<or> len_cameras ex_cameras = len_meshes ex_world 2"
    by (simp add: ex_cameras_def)
  from transform_ok_fst [OF ex_get_cameras_settings_none this] show ?thesis
    by (simp only: ex_next_ref)
qed

lemma ex_get_cameras_empty_znear:
  "get_cameras ex_kwargs_empty_znear ex_world = Some ex_cameras_empty_znear"
  by (simp add: get_cameras_def ex_kwargs_empty_znear_def)

lemma ex_transform_empty_znear:
  "fst (transform ex_ext 2 ex_kwargs_empty_znear ex_world) = Inr 5"
proof -
  have "len_cameras ex_cameras_empty_znear = 1
      \<or> len_cameras ex_cameras_empty_znear = len_meshes ex_world 2"
    by (simp add: ex_cameras_empty_znear_def ex_cameras_def)
  from transform_ok_fst [OF ex_get_cameras_empty_znear this] show ?thesis
    by (simp only: ex_next_ref)
qed

lemma ex_raster_settings_empty_znear:
  "get_raster_settings ex_kwargs_empty_znear ex_world = Some default_settings"
  by (simp add: get_raster_settings_def ex_kwargs_empty_znear_def ex_kwargs_def ex_world_def
      init_def)

section \<open>Properties\<close>



text \<open>
  C2. With a camera bundle supplied, \<^verbatim>\<open>transform\<close> raises exactly when the camera count is
  neither 1 nor the number of meshes; the error is the count mismatch, and \<^verbatim>\<open>forward\<close> then
  returns the same error with the state untouched: no call of \<^verbatim>\<open>rasterize_meshes\<close> is
  logged and no fragments are returned.
\<close>

theorem transform_raises_iff_wrong_count:
  assumes c: "get_cameras kw w = Some cams"
  shows "((\<exists>e. fst (transform ext m kw w) = Inl e)
           \<longleftrightarrow> (len_cameras cams \<noteq> 1 \<and> len_cameras cams \<noteq> len_meshes w m))
     \<and> (\<forall>e. fst (transform ext m kw w) = Inl e \<longrightarrow>
           e = ValueError (WrongNumberOfCameras (len_cameras cams) (len_meshes w m))
           \<and> transform ext m kw w = (Inl e, w)
           \<and> forward ext m kw w = (Inl e, w)
           \<and> calls (snd (forward ext m kw w)) = calls w)"
proof (intro conjI allI impI)
  show "(\<exists>e. fst (transform ext m kw w) = Inl e)
     \<longleftrightarrow> (len_cameras cams \<noteq> 1 \<and> len_cameras cams \<noteq> len_meshes w m)"
    using c by (rule transform_fst_Inl_iff)
next
  fix e
  assume e: "fst (transform ext m kw w) = Inl e"
  then have "len_cameras cams \<noteq> 1 \<and> len_cameras cams \<noteq> len_meshes w m"
    using transform_fst_Inl_iff [OF c, of ext m] by blast
  then have t: "transform ext m kw w =
      (Inl (ValueError (WrongNumberOfCameras (len_cameras cams) (len_meshes w m))), w)"
    using c by (simp add: transform_wrong_number)
  with e show e': "e = ValueError (WrongNumberOfCameras (len_cameras cams) (len_meshes w m))"
    by simp
  from t e' show t': "transform ext m kw w = (Inl e, w)" by simp
  from t' show f: "forward ext m kw w = (Inl e, w)" by (rule forward_transform_error)
  from f show "calls (snd (forward ext m kw w)) = calls w" by simp
qed

theorem transform_raises_iff_wrong_count_witness:
  "forward ex_ext 2 ex_kwargs2 ex_world = (Inl (ValueError (WrongNumberOfCameras 2 1)), ex_world)
   \<and> calls (snd (forward ex_ext 2 ex_kwargs2 ex_world)) = []
   \<and> (\<nexists>e. fst (transform ex_ext 2 ex_kwargs ex_world) = Inl e)"
proof -
  have n2: "len_cameras ex_cameras2 \<noteq> 1 \<and> len_cameras ex_cameras2 \<noteq> len_meshes ex_world 2"
    by (simp add: ex_cameras2_def ex_cameras_def ex_len_meshes)
  have n1: "\<not> (len_cameras ex_cameras \<noteq> 1 \<and> len_cameras ex_cameras \<noteq> len_meshes ex_world 2)"
    by (simp add: ex_cameras_def)
  from transform_raises_iff_wrong_count [OF ex_get_cameras2, of ex_ext 2] n2
  obtain e where e: "fst (transform ex_ext 2 ex_kwargs2 ex_world) = Inl e" by blast
  with transform_raises_iff_wrong_count [OF ex_get_cameras2, of ex_ext 2]
  have "e = ValueError (WrongNumberOfCameras (len_cameras ex_cameras2) (len_meshes ex_world 2))
      \<and> forward ex_ext 2 ex_kwargs2 ex_world = (Inl e, ex_world)
      \<and> calls (snd (forward ex_ext 2 ex_kwargs2 ex_world)) = calls ex_world"
    by blast
  moreover have "calls ex_world = []" by (simp add: ex_world_def)
  moreover have "len_cameras ex_cameras2 = 2" by (simp add: ex_cameras2_def)
  moreover from transform_raises_iff_wrong_count [OF ex_get_cameras, of ex_ext 2] n1
  have "\<nexists>e. fst (transform ex_ext 2 ex_kwargs ex_world) = Inl e" by blast
  ultimately show ?thesis by (simp add: ex_len_meshes)
qed

text \<open>
  C3. When \<^verbatim>\<open>transform\<close> has returned and the settings resolve, \<^verbatim>\<open>forward\<close> calls
  \<^verbatim>\<open>rasterize_meshes\<close>, and the barycentric-clamping flag it hands over is the setting when
  that is \<^verbatim>\<open>True\<close> or \<^verbatim>\<open>False\<close>, and \<^verbatim>\<open>blur_radius > 0\<close> when it is unset.
\<close>

theorem forward_clip_barycentric_coords:
  assumes t: "fst (transform ext m kw w) = Inr mp"
    and c: "get_cameras kw w = Some cams"
    and s: "get_raster_settings kw w = Some rs"
    and z: "z_clip_value rs = None \<longrightarrow> get_znear cams \<noteq> ZTensor []"
  shows "\<exists>a. calls (snd (forward ext m kw w)) = calls w @ [a]
           \<and> arg_clip_barycentric_coords a =
               (case clip_barycentric_coords rs of
                  None \<Rightarrow> blur_radius rs > 0
                | Some b \<Rightarrow> b)"
  using forward_result [OF t c s z] unfolding Let_def by simp

theorem forward_clip_barycentric_coords_witness:
  "length (calls (snd (forward ex_ext 2 ex_kwargs ex_world))) = 1
   \<and> arg_clip_barycentric_coords (last (calls (snd (forward ex_ext 2 ex_kwargs ex_world))))
       = (blur_radius default_settings > 0)
   \<and> \<not> arg_clip_barycentric_coords (last (calls (snd (forward ex_ext 2 ex_kwargs ex_world))))"
proof -
  from forward_clip_barycentric_coords
    [OF ex_transform_fst ex_get_cameras ex_raster_settings ex_znear_ok]
  obtain a where "calls (snd (forward ex_ext 2 ex_kwargs ex_world)) = calls ex_world @ [a]"
    and "arg_clip_barycentric_coords a =
          (case clip_barycentric_coords default_settings of
             None \<Rightarrow> blur_radius default_settings > 0
           | Some b \<Rightarrow> b)"
    by blast
  then show ?thesis by (simp add: ex_world_def default_settings_def)
qed

text \<open>
  C4. When \<^verbatim>\<open>transform\<close> has returned and the settings resolve, \<^verbatim>\<open>forward\<close> calls
  \<^verbatim>\<open>rasterize_meshes\<close>, and the perspective-correction flag it hands over is the setting when
  that is \<^verbatim>\<open>True\<close> or \<^verbatim>\<open>False\<close>, and the camera's \<^verbatim>\<open>is_perspective()\<close> when it is unset.
\<close>

theorem forward_perspective_correct:
  assumes t: "fst (transform ext m kw w) = Inr mp"
    and c: "get_cameras kw w = Some cams"
    and s: "get_raster_settings kw w = Some rs"
    and z: "z_clip_value rs = None \<longrightarrow> get_znear cams \<noteq> ZTensor []"
  shows "\<exists>a. calls (snd (forward ext m kw w)) = calls w @ [a]
           \<and> arg_perspective_correct a =
               (case perspective_correct rs of
                  None \<Rightarrow> is_perspective cams
                | Some b \<Rightarrow> b)"
  using forward_result [OF t c s z] unfolding Let_def by simp

theorem forward_perspective_correct_witness:
  "length (calls (snd (forward ex_ext 2 ex_kwargs ex_world))) = 1
   \<and> arg_perspective_correct (last (calls (snd (forward ex_ext 2 ex_kwargs ex_world))))
       = is_perspective ex_cameras
   \<and> arg_perspective_correct (last (calls (snd (forward ex_ext 2 ex_kwargs ex_world))))"
proof -
  from forward_perspective_correct
    [OF ex_transform_fst ex_get_cameras ex_raster_settings ex_znear_ok]
  obtain a where "calls (snd (forward ex_ext 2 ex_kwargs ex_world)) = calls ex_world @ [a]"
    and "arg_perspective_correct a =
          (case perspective_correct default_settings of
             None \<Rightarrow> is_perspective ex_cameras
           | Some b \<Rightarrow> b)"
    by blast
  then show ?thesis by (simp add: ex_world_def default_settings_def ex_cameras_def)
qed

text \<open>
  C5. When \<^verbatim>\<open>transform\<close> has returned and the settings resolve, \<^verbatim>\<open>forward\<close> calls
  \<^verbatim>\<open>rasterize_meshes\<close>, and the clip depth it hands over is the setting when that is set;
  otherwise half of the camera's near-plane distance (of the least one, for a tensor) when the
  resolved perspective flag is true and the camera has such a distance; otherwise \<^verbatim>\<open>None\<close>:
  an orthographic resolution or a camera without \<^verbatim>\<open>znear\<close> gives no clipping.
\<close>

theorem forward_z_clip_value:
  assumes t: "fst (transform ext m kw w) = Inr mp"
    and c: "get_cameras kw w = Some cams"
    and s: "get_raster_settings kw w = Some rs"
    and z: "z_clip_value rs = None \<longrightarrow> get_znear cams \<noteq> ZTensor []"
  shows "\<exists>a. calls (snd (forward ext m kw w)) = calls w @ [a]
           \<and> arg_perspective_correct a =
               (case perspective_correct rs of
                  None \<Rightarrow> is_perspective cams
                | Some b \<Rightarrow> b)
           \<and> arg_z_clip_value a =
               (case z_clip_value rs of
                  Some z \<Rightarrow> Some z
                | None \<Rightarrow>
                    if arg_perspective_correct a
                    then (case get_znear cams of
                            ZNone \<Rightarrow> None
                          | ZFloat x \<Rightarrow> Some (x / 2)
                          | ZTensor xs \<Rightarrow> Some (Min (set xs) / 2))
                    else None)"
  using forward_result [OF t c s z] unfolding Let_def by simp

theorem forward_z_clip_value_witness:
  "length (calls (snd (forward ex_ext 2 ex_kwargs ex_world))) = 1
   \<and> arg_z_clip_value (last (calls (snd (forward ex_ext 2 ex_kwargs ex_world))))
       = Some (Min {1, 1 / 2, 2} / 2)
   \<and> arg_z_clip_value (last (calls (snd (forward ex_ext 2 ex_kwargs ex_world)))) = Some (1 / 4)"
proof -
  from forward_z_clip_value
    [OF ex_transform_fst ex_get_cameras ex_raster_settings ex_znear_ok]
  obtain a where "calls (snd (forward ex_ext 2 ex_kwargs ex_world)) = calls ex_world @ [a]"
    and "arg_perspective_correct a =
          (case perspective_correct default_settings of
             None \<Rightarrow> is_perspective ex_cameras
           | Some b \<Rightarrow> b)"
    and "arg_z_clip_value a =
          (case z_clip_value default_settings of
             Some z \<Rightarrow> Some z
           | None \<Rightarrow>
               if arg_perspective_correct a
               then (case get_znear ex_cameras of
                       ZNone \<Rightarrow> None
                     | ZFloat x \<Rightarrow> Some (x / 2)
                     | ZTensor xs \<Rightarrow> Some (Min (set xs) / 2))
               else None)"
    by blast
  then show ?thesis by (simp add: ex_world_def default_settings_def ex_cameras_def)
qed

text \<open>
  C9. With \<^verbatim>\<open>z_clip_value\<close> unset and a tensor of near-plane distances, one per batch element,
  \<^verbatim>\<open>forward\<close> calls \<^verbatim>\<open>rasterize_meshes\<close> with one clip depth for the whole batch: under a
  true resolved perspective flag it is half of the minimum of the tensor, that is half of one
  of the entries and at most half of each; under a false one no depth is inferred.
\<close>

theorem forward_z_clip_tensor_min:
  assumes t: "fst (transform ext m kw w) = Inr mp"
    and c: "get_cameras kw w = Some cams"
    and s: "get_raster_settings kw w = Some rs"
    and z: "z_clip_value rs = None"
    and n: "get_znear cams = ZTensor xs"
    and ne: "xs \<noteq> []"
  shows "\<exists>a. calls (snd (forward ext m kw w)) = calls w @ [a]
           \<and> arg_perspective_correct a =
               (case perspective_correct rs of
                  None \<Rightarrow> is_perspective cams
                | Some b \<Rightarrow> b)
           \<and> arg_z_clip_value a =
               (if arg_perspective_correct a then Some (Min (set xs) / 2) else None)
           \<and> (\<forall>v. arg_z_clip_value a = Some v \<longrightarrow>
                 (\<forall>y \<in> set xs. v \<le> y / 2) \<and> (\<exists>y \<in> set xs. v = y / 2))"
proof -
  define M where "M = Min (set xs)"
  from n ne have z': "z_clip_value rs = None \<longrightarrow> get_znear cams \<noteq> ZTensor []" by simp
  from forward_result [OF t c s z']
  obtain a where a: "calls (snd (forward ext m kw w)) = calls w @ [a]"
    and p: "arg_perspective_correct a =
              (case perspective_correct rs of None \<Rightarrow> is_perspective cams | Some b \<Rightarrow> b)"
    and v: "arg_z_clip_value a = (if arg_perspective_correct a then Some (M / 2) else None)"
    unfolding Let_def by (simp add: z n M_def)
  have fin: "finite (set xs)" and nes: "set xs \<noteq> {}" using ne by simp_all
  have le: "M \<le> y" if "y \<in> set xs" for y
    unfolding M_def using fin that by (rule Min_le)
  have mem: "M \<in> set xs"
    unfolding M_def using fin nes by (rule Min_in)
  have bounds: "(\<forall>y \<in> set xs. u \<le> y / 2) \<and> (\<exists>y \<in> set xs. u = y / 2)"
    if "arg_z_clip_value a = Some u" for u
  proof -
    from that v have u: "u = M / 2" by (simp split: if_splits)
    have "\<forall>y \<in> set xs. u \<le> y / 2"
    proof
      fix y
      assume "y \<in> set xs"
      then have "M \<le> y" by (rule le)
      with u show "u \<le> y / 2" by simp
    qed
    moreover from mem u have "\<exists>y \<in> set xs. u = y / 2" by blast
    ultimately show ?thesis by blast
  qed
  from a p v bounds show ?thesis
    unfolding M_def by blast
qed

theorem forward_z_clip_tensor_min_witness:
  "length (calls (snd (forward ex_ext 2 ex_kwargs ex_world))) = 1
   \<and> arg_z_clip_value (last (calls (snd (forward ex_ext 2 ex_kwargs ex_world))))
       = Some (Min (set [1, 1 / 2, 2]) / 2)
   \<and> Min (set [1, 1 / 2, 2 :: real]) = 1 / 2"
proof -
  have z: "z_clip_value default_settings = None" by (simp add: default_settings_def)
  have n: "get_znear ex_cameras = ZTensor [1, 1 / 2, 2]" by (simp add: ex_cameras_def)
  have ne: "[1, 1 / 2, 2 :: real] \<noteq> []" by simp
  from forward_z_clip_tensor_min
    [OF ex_transform_fst ex_get_cameras ex_raster_settings z n ne]
  obtain a where "calls (snd (forward ex_ext 2 ex_kwargs ex_world)) = calls ex_world @ [a]"
    and "arg_perspective_correct a =
          (case perspective_correct default_settings of
             None \<Rightarrow> is_perspective ex_cameras
           | Some b \<Rightarrow> b)"
    and "arg_z_clip_value a =
          (if arg_perspective_correct a then Some (Min (set [1, 1 / 2, 2]) / 2) else None)"
    by blast
  then show ?thesis by (simp add: ex_world_def default_settings_def ex_cameras_def)
qed

text \<open>
  C6, as amended. Without a camera at construction and without one in the keyword arguments,
  both \<^verbatim>\<open>transform\<close> and \<^verbatim>\<open>forward\<close> raise the \<^verbatim>\<open>ValueError\<close> of line 134 and leave the
  state as it was. Once \<^verbatim>\<open>transform\<close> has returned a mesh, the settings resolution of
  \<^verbatim>\<open>forward\<close> fails in exactly two cases: \<^verbatim>\<open>raster_settings\<close> passed as \<^verbatim>\<open>None\<close> by keyword
  (\<^verbatim>\<open>AttributeError\<close>), and, with \<^verbatim>\<open>z_clip_value\<close> unset, a camera whose \<^verbatim>\<open>znear\<close> is a
  tensor without entries (\<^verbatim>\<open>RuntimeError\<close>); neither calls \<^verbatim>\<open>rasterize_meshes\<close>. In every
  other case \<^verbatim>\<open>forward\<close> reaches its call of \<^verbatim>\<open>rasterize_meshes\<close>, and an error of
  \<^verbatim>\<open>forward\<close> is then the error of that call.
\<close>

theorem missing_cameras_raise_value_error:
  "(cameras (rasterizer w) = None \<and> (kw_cameras kw = None \<or> kw_cameras kw = Some None) \<longrightarrow>
      transform ext m kw w = (Inl (ValueError CamerasMustBeSpecified), w)
      \<and> forward ext m kw w = (Inl (ValueError CamerasMustBeSpecified), w))
   \<and> (\<forall>mp cams. fst (transform ext m kw w) = Inr mp \<and> get_cameras kw w = Some cams \<longrightarrow>
         (kw_raster_settings kw = Some None \<longrightarrow>
            forward ext m kw w = (Inl AttributeError, snd (transform ext m kw w))
            \<and> calls (snd (forward ext m kw w)) = calls w)
         \<and> (\<forall>rs. get_raster_settings kw w = Some rs \<longrightarrow>
               (if z_clip_value rs = None \<and> get_znear cams = ZTensor []
                then forward ext m kw w = (Inl RuntimeError, snd (transform ext m kw w))
                     \<and> calls (snd (forward ext m kw w)) = calls w
                else (\<exists>a. calls (snd (forward ext m kw w)) = calls w @ [a]
                        \<and> (\<forall>e. fst (forward ext m kw w) = Inl e \<longrightarrow>
                              rasterize_meshes ext (snd (forward ext m kw w)) a = Inl e)))))"
proof (intro conjI allI impI)
  assume "cameras (rasterizer w) = None \<and> (kw_cameras kw = None \<or> kw_cameras kw = Some None)"
  then have "get_cameras kw w = None" by (simp add: get_cameras_None)
  then show t: "transform ext m kw w = (Inl (ValueError CamerasMustBeSpecified), w)"
    by (rule transform_no_cameras)
  then show "forward ext m kw w = (Inl (ValueError CamerasMustBeSpecified), w)"
    by (rule forward_transform_error)
next
  fix mp cams
  assume h: "fst (transform ext m kw w) = Inr mp \<and> get_cameras kw w = Some cams"
  assume "kw_raster_settings kw = Some None"
  then have s: "get_raster_settings kw w = None" by (simp add: get_raster_settings_None_iff)
  from h have t: "transform ext m kw w = (Inr mp, snd (transform ext m kw w))"
    by (simp add: prod_eq_iff)
  from t s show f: "forward ext m kw w = (Inl AttributeError, snd (transform ext m kw w))"
    by (rule forward_settings_none)
  from transform_frame [OF t] f show "calls (snd (forward ext m kw w)) = calls w" by simp
next
  fix mp cams rs
  assume h: "fst (transform ext m kw w) = Inr mp \<and> get_cameras kw w = Some cams"
    and s: "get_raster_settings kw w = Some rs"
  from h have t: "transform ext m kw w = (Inr mp, snd (transform ext m kw w))"
    and t': "fst (transform ext m kw w) = Inr mp"
    and c: "get_cameras kw w = Some cams"
    by (simp_all add: prod_eq_iff)
  show "if z_clip_value rs = None \<and> get_znear cams = ZTensor []
        then forward ext m kw w = (Inl RuntimeError, snd (transform ext m kw w))
             \<and> calls (snd (forward ext m kw w)) = calls w
        else (\<exists>a. calls (snd (forward ext m kw w)) = calls w @ [a]
                \<and> (\<forall>e. fst (forward ext m kw w) = Inl e \<longrightarrow>
                      rasterize_meshes ext (snd (forward ext m kw w)) a = Inl e))"
  proof (cases "z_clip_value rs = None \<and> get_znear cams = ZTensor []")
    case True
    then have f: "forward ext m kw w = (Inl RuntimeError, snd (transform ext m kw w))"
      using forward_znear_empty [OF t c s] by blast
    moreover from transform_frame [OF t] f have "calls (snd (forward ext m kw w)) = calls w"
      by simp
    ultimately show ?thesis unfolding if_P [OF True] by (rule conjI)
  next
    case False
    then have z: "z_clip_value rs = None \<longrightarrow> get_znear cams \<noteq> ZTensor []" by blast
    show ?thesis unfolding if_not_P [OF False]
      using t' c s z by (rule forward_failure_after_transform)
  qed
qed

theorem missing_cameras_raise_value_error_witness:
  "forward ex_ext 2 ex_kwargs ex_world_no_cameras =
     (Inl (ValueError CamerasMustBeSpecified), ex_world_no_cameras)
   \<and> transform ex_ext 2 ex_kwargs ex_world_no_cameras =
     (Inl (ValueError CamerasMustBeSpecified), ex_world_no_cameras)
   \<and> fst (forward ex_ext 2 ex_kwargs_settings_none ex_world) = Inl AttributeError
   \<and> fst (forward ex_ext 2 ex_kwargs_empty_znear ex_world) = Inl RuntimeError
   \<and> length (calls (snd (forward ex_ext 2 ex_kwargs ex_world))) = 1"
proof -
  have h: "cameras (rasterizer ex_world_no_cameras) = None
      \<and> (kw_cameras ex_kwargs = None \<or> kw_cameras ex_kwargs = Some None)"
    by (simp add: ex_world_no_cameras_def ex_kwargs_def init_def)
  from missing_cameras_raise_value_error [of ex_world_no_cameras ex_kwargs ex_ext 2] h
  have 1: "transform ex_ext 2 ex_kwargs ex_world_no_cameras =
        (Inl (ValueError CamerasMustBeSpecified), ex_world_no_cameras)
     \<and> forward ex_ext 2 ex_kwargs ex_world_no_cameras =
        (Inl (ValueError CamerasMustBeSpecified), ex_world_no_cameras)"
    by blast
  have k: "kw_raster_settings ex_kwargs_settings_none = Some None"
    by (simp add: ex_kwargs_settings_none_def)
  from missing_cameras_raise_value_error [of ex_world ex_kwargs_settings_none ex_ext 2]
    ex_transform_settings_none ex_get_cameras_settings_none k
  have "forward ex_ext 2 ex_kwargs_settings_none ex_world =
      (Inl AttributeError, snd (transform ex_ext 2 ex_kwargs_settings_none ex_world))"
    by blast
  then have 2: "fst (forward ex_ext 2 ex_kwargs_settings_none ex_world) = Inl AttributeError"
    by simp
  have e: "z_clip_value default_settings = None
      \<and> get_znear ex_cameras_empty_znear = ZTensor []"
    by (simp add: default_settings_def ex_cameras_empty_znear_def)
  from missing_cameras_raise_value_error [of ex_world ex_kwargs_empty_znear ex_ext 2]
    ex_transform_empty_znear ex_get_cameras_empty_znear ex_raster_settings_empty_znear
  have "if z_clip_value default_settings = None \<and> get_znear ex_cameras_empty_znear = ZTensor []
      then forward ex_ext 2 ex_kwargs_empty_znear ex_world =
             (Inl RuntimeError, snd (transform ex_ext 2 ex_kwargs_empty_znear ex_world))
           \<and> calls (snd (forward ex_ext 2 ex_kwargs_empty_znear ex_world)) = calls ex_world
      else (\<exists>a. calls (snd (forward ex_ext 2 ex_kwargs_empty_znear ex_world)) =
                  calls ex_world @ [a]
              \<and> (\<forall>e. fst (forward ex_ext 2 ex_kwargs_empty_znear ex_world) = Inl e \<longrightarrow>
                    rasterize_meshes ex_ext (snd (forward ex_ext 2 ex_kwargs_empty_znear ex_world)) a
                      = Inl e))"
    by blast
  with e have 3: "fst (forward ex_ext 2 ex_kwargs_empty_znear ex_world) = Inl RuntimeError"
    by simp
  have ok: "\<not> (z_clip_value default_settings = None \<and> get_znear ex_cameras = ZTensor [])"
    by (simp add: ex_cameras_def)
  from missing_cameras_raise_value_error [of ex_world ex_kwargs ex_ext 2]
    ex_transform_fst ex_get_cameras ex_raster_settings
  have "if z_clip_value default_settings = None \<and> get_znear ex_cameras = ZTensor []
      then forward ex_ext 2 ex_kwargs ex_world =
             (Inl RuntimeError, snd (transform ex_ext 2 ex_kwargs ex_world))
           \<and> calls (snd (forward ex_ext 2 ex_kwargs ex_world)) = calls ex_world
      else (\<exists>a. calls (snd (forward ex_ext 2 ex_kwargs ex_world)) = calls ex_world @ [a]
              \<and> (\<forall>e. fst (forward ex_ext 2 ex_kwargs ex_world) = Inl e \<longrightarrow>
                    rasterize_meshes ex_ext (snd (forward ex_ext 2 ex_kwargs ex_world)) a = Inl e))"
    by blast
  with ok obtain a
    where "calls (snd (forward ex_ext 2 ex_kwargs ex_world)) = calls ex_world @ [a]"
    by auto
  then have 4: "length (calls (snd (forward ex_ext 2 ex_kwargs ex_world))) = 1"
    by (simp add: ex_world_def)
  from 1 2 3 4 show ?thesis by blast
qed

text \<open>
  C6, as stated, fails: here a camera is supplied and \<^verbatim>\<open>transform\<close> returns a mesh, and still
  the settings resolution of \<^verbatim>\<open>forward\<close> raises before any call of \<^verbatim>\<open>rasterize_meshes\<close>,
  once on \<^verbatim>\<open>raster_settings=None\<close> and once on an empty \<^verbatim>\<open>znear\<close> tensor.
\<close>

theorem settings_resolution_failure_counterexample:
  "get_cameras ex_kwargs_settings_none ex_world = Some ex_cameras
   \<and> fst (transform ex_ext 2 ex_kwargs_settings_none ex_world) = Inr 5
   \<and> fst (forward ex_ext 2 ex_kwargs_settings_none ex_world) = Inl AttributeError
   \<and> calls (snd (forward ex_ext 2 ex_kwargs_settings_none ex_world)) = []
   \<and> get_cameras ex_kwargs_empty_znear ex_world = Some ex_cameras_empty_znear
   \<and> fst (transform ex_ext 2 ex_kwargs_empty_znear ex_world) = Inr 5
   \<and> fst (forward ex_ext 2 ex_kwargs_empty_znear ex_world) = Inl RuntimeError
   \<and> calls (snd (forward ex_ext 2 ex_kwargs_empty_znear ex_world)) = []"
proof -
  have t1: "transform ex_ext 2 ex_kwargs_settings_none ex_world =
      (Inr 5, snd (transform ex_ext 2 ex_kwargs_settings_none ex_world))"
    using ex_transform_settings_none by (simp add: prod_eq_iff)
  have s1: "get_raster_settings ex_kwargs_settings_none ex_world = None"
    by (simp add: get_raster_settings_def ex_kwargs_settings_none_def)
  note f1 = forward_settings_none [OF t1 s1]
  have t2: "transform ex_ext 2 ex_kwargs_empty_znear ex_world =
      (Inr 5, snd (transform ex_ext 2 ex_kwargs_empty_znear ex_world))"
    using ex_transform_empty_znear by (simp add: prod_eq_iff)
  have z: "z_clip_value default_settings = None" by (simp add: default_settings_def)
  have e: "get_znear ex_cameras_empty_znear = ZTensor []"
    by (simp add: ex_cameras_empty_znear_def)
  note f2 = forward_znear_empty
    [OF t2 ex_get_cameras_empty_znear ex_raster_settings_empty_znear z e]
  have c0: "calls ex_world = []" by (simp add: ex_world_def)
  from transform_frame [OF t1] f1 c0
  have 1: "fst (forward ex_ext 2 ex_kwargs_settings_none ex_world) = Inl AttributeError
      \<and> calls (snd (forward ex_ext 2 ex_kwargs_settings_none ex_world)) = []"
    by simp
  from transform_frame [OF t2] f2 c0
  have 2: "fst (forward ex_ext 2 ex_kwargs_empty_znear ex_world) = Inl RuntimeError
      \<and> calls (snd (forward ex_ext 2 ex_kwargs_empty_znear ex_world)) = []"
    by simp
  from 1 2 ex_get_cameras_settings_none ex_transform_settings_none
    ex_get_cameras_empty_znear ex_transform_empty_znear
  show ?thesis by blast
qed

text \<open>
  C7. \<^verbatim>\<open>transform\<close> leaves every array and mesh object that existed before the call as it
  was, in particular the input mesh, its vertex array and its face array, whether it returns or
  raises. The mesh it returns is a new object: its vertex array is one allocated during the
  call, and its face array is the input's.
\<close>

theorem transform_does_not_mutate_input:
  assumes m: "m < next_ref w"
    and v: "verts_padded_ref (meshes_mem w m) < next_ref w"
    and t: "transform ext m kw w = (r, w')"
  shows "meshes_mem w' m = meshes_mem w m
     \<and> verts_mem w' (verts_padded_ref (meshes_mem w m)) = verts_mem w (verts_padded_ref (meshes_mem w m))
     \<and> faces_mem w' = faces_mem w
     \<and> (\<forall>a < next_ref w. verts_mem w' a = verts_mem w a \<and> meshes_mem w' a = meshes_mem w a)
     \<and> (\<forall>m'. r = Inr m' \<longrightarrow>
           next_ref w \<le> m' \<and> m' \<noteq> m
           \<and> next_ref w \<le> verts_padded_ref (meshes_mem w' m')
           \<and> verts_padded_ref (meshes_mem w' m') \<noteq> verts_padded_ref (meshes_mem w m)
           \<and> faces_padded_ref (meshes_mem w' m') = faces_padded_ref (meshes_mem w m))"
proof -
  from transform_frame [OF t]
  have fr: "faces_mem w' = faces_mem w"
    and old: "\<forall>a < next_ref w. verts_mem w' a = verts_mem w a \<and> meshes_mem w' a = meshes_mem w a"
    by simp_all
  have new: "next_ref w \<le> m' \<and> m' \<noteq> m
           \<and> next_ref w \<le> verts_padded_ref (meshes_mem w' m')
           \<and> verts_padded_ref (meshes_mem w' m') \<noteq> verts_padded_ref (meshes_mem w m)
           \<and> faces_padded_ref (meshes_mem w' m') = faces_padded_ref (meshes_mem w m)"
    if r: "r = Inr m'" for m'
  proof -
    from t r have t': "transform ext m kw w = (Inr m', w')" by simp
    from transform_Inr_cameras [OF t'] obtain cams where c: "get_cameras kw w = Some cams"
      by blast
    from transform_Inr_result [OF t' c]
    have m': "m' = Suc (Suc (next_ref w))"
      and mm: "meshes_mem w' = (meshes_mem w)(Suc (Suc (next_ref w)) :=
               \<lparr>verts_padded_ref = Suc (next_ref w),
                faces_padded_ref = faces_padded_ref (meshes_mem w m)\<rparr>)"
      by simp_all
    from m v show ?thesis by (simp add: m' mm)
  qed
  from old m v fr new show ?thesis by blast
qed

theorem transform_does_not_mutate_input_witness:
  "verts_mem (snd (transform ex_ext 2 ex_kwargs ex_world)) 0 = [[(1, 2, 3)]]
   \<and> meshes_mem (snd (transform ex_ext 2 ex_kwargs ex_world)) 2 =
       \<lparr>verts_padded_ref = 0, faces_padded_ref = 1\<rparr>
   \<and> faces_mem (snd (transform ex_ext 2 ex_kwargs ex_world)) 1 = [[(0, 0, 0)]]
   \<and> faces_padded_ref (meshes_mem (snd (transform ex_ext 2 ex_kwargs ex_world)) 5) = 1
   \<and> verts_padded_ref (meshes_mem (snd (transform ex_ext 2 ex_kwargs ex_world)) 5) \<noteq> 0"
proof -
  have m: "2 < next_ref ex_world" by (simp add: ex_world_def)
  have v: "verts_padded_ref (meshes_mem ex_world 2) < next_ref ex_world"
    by (simp add: ex_world_def)
  have t: "transform ex_ext 2 ex_kwargs ex_world = (Inr 5, snd (transform ex_ext 2 ex_kwargs ex_world))"
    by (simp add: ex_transform)
  from transform_does_not_mutate_input [OF m v t]
  show ?thesis by (simp add: ex_world_def)
qed

text \<open>
  C8. \<^verbatim>\<open>forward\<close> never changes the rasterizer object, and so not its stored settings. It
  calls \<^verbatim>\<open>rasterize_meshes\<close> at most once; when \<^verbatim>\<open>transform\<close> has returned a mesh and the
  settings resolve, it calls it exactly once, on that mesh, with the three resolved values and
  the other settings fields as they are, and the five outputs of that call are the five fields
  of the returned \<^verbatim>\<open>Fragments\<close>, in order.
\<close>

theorem forward_passes_resolved_settings:
  "rasterizer (snd (forward ext m kw w)) = rasterizer w
   \<and> (calls (snd (forward ext m kw w)) = calls w
        \<or> (\<exists>a. calls (snd (forward ext m kw w)) = calls w @ [a]))
   \<and> (\<forall>mp cams rs.
         fst (transform ext m kw w) = Inr mp \<and> get_cameras kw w = Some cams
         \<and> get_raster_settings kw w = Some rs
         \<and> (z_clip_value rs = None \<longrightarrow> get_znear cams \<noteq> ZTensor []) \<longrightarrow>
         (let persp = (case perspective_correct rs of None \<Rightarrow> is_perspective cams | Some b \<Rightarrow> b);
              args = \<lparr>arg_meshes = mp,
                      arg_image_size = image_size rs,
                      arg_blur_radius = blur_radius rs,
                      arg_faces_per_pixel = faces_per_pixel rs,
                      arg_bin_size = bin_size rs,
                      arg_max_faces_per_bin = max_faces_per_bin rs,
                      arg_clip_barycentric_coords =
                        (case clip_barycentric_coords rs of
                           None \<Rightarrow> blur_radius rs > 0
                         | Some b \<Rightarrow> b),
                      arg_perspective_correct = persp,
                      arg_cull_backfaces = cull_backfaces rs,
                      arg_z_clip_value =
                        (case z_clip_value rs of
                           Some z \<Rightarrow> Some z
                         | None \<Rightarrow>
                             if persp
                             then (case get_znear cams of
                                     ZNone \<Rightarrow> None
                                   | ZFloat x \<Rightarrow> Some (x / 2)
                                   | ZTensor xs \<Rightarrow> Some (Min (set xs) / 2))
                             else None),
                      arg_cull_to_frustum = cull_to_frustum rs\<rparr>
          in calls (snd (forward ext m kw w)) = calls w @ [args]
           \<and> fst (forward ext m kw w) =
               (case rasterize_meshes ext (snd (forward ext m kw w)) args of
                  Inl e \<Rightarrow> Inl e
                | Inr (p, z, b, d, k) \<Rightarrow>
                    Inr \<lparr>pix_to_face = p, zbuf = z, bary_coords = b, dists = d,
                         back_faces = k\<rparr>)))"
proof (intro conjI allI impI)
  show "rasterizer (snd (forward ext m kw w)) = rasterizer w"
    using forward_frame [of ext m kw w] by blast
next
  show "calls (snd (forward ext m kw w)) = calls w
        \<or> (\<exists>a. calls (snd (forward ext m kw w)) = calls w @ [a])"
    using forward_frame [of ext m kw w] by blast
next
  fix mp cams rs
  assume "fst (transform ext m kw w) = Inr mp \<and> get_cameras kw w = Some cams
         \<and> get_raster_settings kw w = Some rs
         \<and> (z_clip_value rs = None \<longrightarrow> get_znear cams \<noteq> ZTensor [])"
  then have t: "fst (transform ext m kw w) = Inr mp"
    and c: "get_cameras kw w = Some cams"
    and s: "get_raster_settings kw w = Some rs"
    and z: "z_clip_value rs = None \<longrightarrow> get_znear cams \<noteq> ZTensor []"
    by simp_all
  from t c s z show "let persp = (case perspective_correct rs of None \<Rightarrow> is_perspective cams | Some b \<Rightarrow> b);
              args = \<lparr>arg_meshes = mp,
                      arg_image_size = image_size rs,
                      arg_blur_radius = blur_radius rs,
                      arg_faces_per_pixel = faces_per_pixel rs,
                      arg_bin_size = bin_size rs,
                      arg_max_faces_per_bin = max_faces_per_bin rs,
                      arg_clip_barycentric_coords =
                        (case clip_barycentric_coords rs of
                           None \<Rightarrow> blur_radius rs > 0
                         | Some b \<Rightarrow> b),
                      arg_perspective_correct = persp,
                      arg_cull_backfaces = cull_backfaces rs,
                      arg_z_clip_value =
                        (case z_clip_value rs of
                           Some z \<Rightarrow> Some z
                         | None \<Rightarrow>
                             if persp
                             then (case get_znear cams of
                                     ZNone \<Rightarrow> None
                                   | ZFloat x \<Rightarrow> Some (x / 2)
                                   | ZTensor xs \<Rightarrow> Some (Min (set xs) / 2))
                             else None),
                      arg_cull_to_frustum = cull_to_frustum rs\<rparr>
          in calls (snd (forward ext m kw w)) = calls w @ [args]
           \<and> fst (forward ext m kw w) =
               (case rasterize_meshes ext (snd (forward ext m kw w)) args of
                  Inl e \<Rightarrow> Inl e
                | Inr (p, z, b, d, k) \<Rightarrow>
                    Inr \<lparr>pix_to_face = p, zbuf = z, bary_coords = b, dists = d,
                         back_faces = k\<rparr>)"
    by (rule forward_result)
qed

theorem forward_passes_resolved_settings_witness:
  "rasterizer (snd (forward ex_ext 2 ex_kwargs ex_world)) = rasterizer ex_world
   \<and> calls (snd (forward ex_ext 2 ex_kwargs ex_world)) = [ex_args]
   \<and> fst (forward ex_ext 2 ex_kwargs ex_world) =
       Inr \<lparr>pix_to_face = 5, zbuf = 1, bary_coords = 2, dists = 3, back_faces = 4\<rparr>"
proof -
  have h: "fst (transform ex_ext 2 ex_kwargs ex_world) = Inr 5
      \<and> get_cameras ex_kwargs ex_world = Some ex_cameras
      \<and> get_raster_settings ex_kwargs ex_world = Some default_settings
      \<and> (z_clip_value default_settings = None \<longrightarrow> get_znear ex_cameras \<noteq> ZTensor [])"
    using ex_transform_fst ex_get_cameras ex_raster_settings ex_znear_ok by blast
  note all = forward_passes_resolved_settings [of ex_ext 2 ex_kwargs ex_world]
  from all have r: "rasterizer (snd (forward ex_ext 2 ex_kwargs ex_world)) = rasterizer ex_world"
    by (rule conjunct1)
  have e: "(let persp = (case perspective_correct default_settings of None \<Rightarrow> is_perspective ex_cameras | Some b \<Rightarrow> b);
              args = \<lparr>arg_meshes = 5,
                      arg_image_size = image_size default_settings,
                      arg_blur_radius = blur_radius default_settings,
                      arg_faces_per_pixel = faces_per_pixel default_settings,
                      arg_bin_size = bin_size default_settings,
                      arg_max_faces_per_bin = max_faces_per_bin default_settings,
                      arg_clip_barycentric_coords =
                        (case clip_barycentric_coords default_settings of
                           None \<Rightarrow> blur_radius default_settings > 0
                         | Some b \<Rightarrow> b),
                      arg_perspective_correct = persp,
                      arg_cull_backfaces = cull_backfaces default_settings,
                      arg_z_clip_value =
                        (case z_clip_value default_settings of
                           Some z \<Rightarrow> Some z
                         | None \<Rightarrow>
                             if persp
                             then (case get_znear ex_cameras of
                                     ZNone \<Rightarrow> None
                                   | ZFloat x \<Rightarrow> Some (x / 2)
                                   | ZTensor xs \<Rightarrow> Some (Min (set xs) / 2))
                             else None),
                      arg_cull_to_frustum = cull_to_frustum default_settings\<rparr>
          in calls (snd (forward ex_ext 2 ex_kwargs ex_world)) = calls ex_world @ [args]
           \<and> fst (forward ex_ext 2 ex_kwargs ex_world) =
               (case rasterize_meshes ex_ext (snd (forward ex_ext 2 ex_kwargs ex_world)) args of
                  Inl e \<Rightarrow> Inl e
                | Inr (p, z, b, d, k) \<Rightarrow>
                    Inr \<lparr>pix_to_face = p, zbuf = z, bary_coords = b, dists = d,
                         back_faces = k\<rparr>))"
    using all [THEN conjunct2, THEN conjunct2, rule_format, OF h] .
  from r e show ?thesis
    unfolding Let_def
    by (simp add: default_settings_def ex_cameras_def ex_args_def ex_ext_def ex_world_def)
qed

text \<open>
  C10. \<^verbatim>\<open>forward\<close> runs \<^verbatim>\<open>transform\<close> first: with no camera, or with a camera count that is
  neither 1 nor the number of meshes, it raises the \<^verbatim>\<open>ValueError\<close> of \<^verbatim>\<open>transform\<close> and
  leaves the state as it was, whatever the settings are. That includes settings whose
  tri-state fields are all set, which by themselves resolve without any camera.
\<close>

theorem forward_validates_cameras_first:
  "(get_cameras kw w = None \<longrightarrow>
      forward ext m kw w = (Inl (ValueError CamerasMustBeSpecified), w))
   \<and> (\<forall>cams. get_cameras kw w = Some cams \<and> len_cameras cams \<noteq> 1
          \<and> len_cameras cams \<noteq> len_meshes w m \<longrightarrow>
        forward ext m kw w =
          (Inl (ValueError (WrongNumberOfCameras (len_cameras cams) (len_meshes w m))), w))
   \<and> (\<forall>rs b z. perspective_correct rs = Some b \<and> z_clip_value rs = Some z \<longrightarrow>
        resolve_perspective_correct rs (None :: ('a, 'b) Cameras option) = Inr b
        \<and> resolve_z_clip rs (None :: ('a, 'b) Cameras option) b = Inr (Some z))"
proof (intro conjI allI impI)
  assume "get_cameras kw w = None"
  then have "transform ext m kw w = (Inl (ValueError CamerasMustBeSpecified), w)"
    by (rule transform_no_cameras)
  then show "forward ext m kw w = (Inl (ValueError CamerasMustBeSpecified), w)"
    by (rule forward_transform_error)
next
  fix cams
  assume "get_cameras kw w = Some cams \<and> len_cameras cams \<noteq> 1
          \<and> len_cameras cams \<noteq> len_meshes w m"
  then have "transform ext m kw w =
      (Inl (ValueError (WrongNumberOfCameras (len_cameras cams) (len_meshes w m))), w)"
    by (simp add: transform_wrong_number)
  then show "forward ext m kw w =
      (Inl (ValueError (WrongNumberOfCameras (len_cameras cams) (len_meshes w m))), w)"
    by (rule forward_transform_error)
next
  fix rs :: RasterizationSettings and b z
  assume h: "perspective_correct rs = Some b \<and> z_clip_value rs = Some z"
  then show "resolve_perspective_correct rs (None :: ('a, 'b) Cameras option) = Inr b"
    by (simp add: resolve_perspective_correct_def)
  from h show "resolve_z_clip rs (None :: ('a, 'b) Cameras option) b = Inr (Some z)"
    by (simp add: resolve_z_clip_def)
qed

theorem forward_validates_cameras_first_witness:
  "forward ex_ext 2 ex_kwargs_none ex_world = (Inl (ValueError CamerasMustBeSpecified), ex_world)
   \<and> forward ex_ext 2 ex_kwargs_mismatch ex_world =
       (Inl (ValueError (WrongNumberOfCameras 2 1)), ex_world)
   \<and> resolve_perspective_correct ex_settings_explicit
        (None :: (vec3 \<Rightarrow> vec3, unit) Cameras option) = Inr False
   \<and> resolve_z_clip ex_settings_explicit
        (None :: (vec3 \<Rightarrow> vec3, unit) Cameras option) False = Inr (Some (1 / 100))"
proof -
  have n: "get_cameras ex_kwargs_none ex_world = None"
    by (simp add: get_cameras_def ex_kwargs_none_def)
  have c: "get_cameras ex_kwargs_mismatch ex_world = Some ex_cameras2
      \<and> len_cameras ex_cameras2 \<noteq> 1 \<and> len_cameras ex_cameras2 \<noteq> len_meshes ex_world 2"
    by (simp add: get_cameras_def ex_kwargs_mismatch_def ex_cameras2_def ex_len_meshes)
  have s: "perspective_correct ex_settings_explicit = Some False
      \<and> z_clip_value ex_settings_explicit = Some (1 / 100)"
    by (simp add: ex_settings_explicit_def)
  have l: "len_cameras ex_cameras2 = 2" by (simp add: ex_cameras2_def)
  from forward_validates_cameras_first [of ex_kwargs_none ex_world ex_ext 2] n
  have 1: "forward ex_ext 2 ex_kwargs_none ex_world =
      (Inl (ValueError CamerasMustBeSpecified), ex_world)"
    by blast
  from forward_validates_cameras_first [of ex_kwargs_mismatch ex_world ex_ext 2] c
  have 2: "forward ex_ext 2 ex_kwargs_mismatch ex_world =
      (Inl (ValueError (WrongNumberOfCameras (len_cameras ex_cameras2) (len_meshes ex_world 2))),
       ex_world)"
    by blast
  from forward_validates_cameras_first [of ex_kwargs_none ex_world ex_ext 2] s
  have 3: "resolve_perspective_correct ex_settings_explicit
        (None :: (vec3 \<Rightarrow> vec3, unit) Cameras option) = Inr False
     \<and> resolve_z_clip ex_settings_explicit
        (None :: (vec3 \<Rightarrow> vec3, unit) Cameras option) False = Inr (Some (1 / 100))"
    by blast
  from 1 2 3 show ?thesis by (simp add: l ex_len_meshes)
qed

end
